theory Spec2Isabelle
  imports Main
begin

section \<open>Data model of compositor/xwayland.c\<close>

text \<open>
  Pointers returned by the host (event sources, clients, the xwayland handle) are opaque
  to this file: they are natural numbers, and a pointer that may be NULL is an option.
  Descriptors, process ids and statuses are C ints; no arithmetic is done on them, they
  are only compared with 0 and -1, so they are kept as integers.
\<close>

datatype callback = Handle_sigusr1 | Spawn_xserver | Xserver_cleanup

text \<open>\<^verbatim>\<open>struct wet_xwayland\<close>; \<open>process_pid\<close> and \<open>process_cleanup\<close> are the two fields
  of the embedded \<^verbatim>\<open>struct weston_process\<close> that this file touches.\<close>

record wet_xwayland =
  compositor :: nat
  api :: nat
  xwayland :: nat
  sigusr1_source :: "nat option"
  client :: "nat option"
  wm_fd :: int
  process_pid :: int
  process_cleanup :: "callback option"

text \<open>What \<^verbatim>\<open>zalloc\<close> returns: every field zero.\<close>

definition zalloc_wxw :: wet_xwayland where
  "zalloc_wxw = \<lparr>compositor = 0, api = 0, xwayland = 0, sigusr1_source = None,
     client = None, wm_fd = 0, process_pid = 0, process_cleanup = None\<rparr>"

text \<open>Calls into the operating system and into the host, in the order they are made.\<close>

datatype event =
    Socketpair "(int \<times> int) option"
  | Weston_log string
  | Weston_log_continue string
  | Fork int
  | Dup int int
  | Setenv string string
  | Signal_ignore_sigusr1
  | Execv string "string option list"
  | Exit_failure
  | Close int
  | Wl_client_create int "nat option"
  | Weston_watch_process int
  | Xserver_loaded nat "nat option" int
  | Xserver_exited nat int
  | Add_signal callback nat
  | Source_remove nat
  | Load_xwayland_module int
  | Get_api "nat option"
  | Api_get "nat option"
  | Zalloc "nat option"
  | Api_listen nat callback int

text \<open>
  The part of the process the claims observe: the trace of calls, the descriptors open
  in this process, the SIGUSR1 sources armed on the event loop, and the heap blocks that
  are allocated and not freed. \<open>next_source\<close> numbers the event sources.
\<close>

record world =
  trace :: "event list"
  open_fds :: "int list"
  sources :: "nat list"
  next_source :: nat
  allocated :: "nat list"

definition emit :: "event \<Rightarrow> world \<Rightarrow> world" where
  "emit e s = s\<lparr>trace := trace s @ [e]\<rparr>"

definition weston_log :: "string \<Rightarrow> world \<Rightarrow> world" where
  "weston_log m s = emit (Weston_log m) s"

text \<open>\<^verbatim>\<open>socketpair\<close>: on success both descriptors are open in the caller.\<close>

definition socketpair :: "(int \<times> int) option \<Rightarrow> world \<Rightarrow> world" where
  "socketpair r s =
     (case r of
        None \<Rightarrow> emit (Socketpair None) s
      | Some (a, b) \<Rightarrow> (emit (Socketpair (Some (a, b))) s)\<lparr>open_fds := open_fds s @ [a, b]\<rparr>)"

definition close_fd :: "int \<Rightarrow> world \<Rightarrow> world" where
  "close_fd fd s = (emit (Close fd) s)\<lparr>open_fds := removeAll fd (open_fds s)\<rparr>"

text \<open>\<^verbatim>\<open>dup\<close>: the result is negative on failure, a new open descriptor otherwise.\<close>

definition dup :: "int \<Rightarrow> int \<Rightarrow> world \<Rightarrow> world" where
  "dup fd r s =
     (if r < 0 then emit (Dup fd r) s
      else (emit (Dup fd r) s)\<lparr>open_fds := open_fds s @ [r]\<rparr>)"

text \<open>
  \<^verbatim>\<open>wl_event_loop_add_signal\<close> (libwayland) creates a new source, arms it on the loop
  and returns it. The source is taken to be created: the file never tests the result.
\<close>

definition wl_event_loop_add_signal :: "callback \<Rightarrow> world \<Rightarrow> nat \<times> world" where
  "wl_event_loop_add_signal f s =
     (let src = next_source s
      in (src, (emit (Add_signal f src) s)
                 \<lparr>sources := sources s @ [src], next_source := Suc src\<rparr>))"

datatype fault = Null_source | Dangling_source

text \<open>\<^verbatim>\<open>wl_event_source_remove\<close> (libwayland) reads through its argument: a NULL or an
  already removed source is a fault of the process.\<close>

definition wl_event_source_remove :: "nat option \<Rightarrow> world \<Rightarrow> fault + world" where
  "wl_event_source_remove p s =
     (case p of
        None \<Rightarrow> Inl Null_source
      | Some src \<Rightarrow>
          if src \<in> set (sources s)
          then Inr ((emit (Source_remove src) s)\<lparr>sources := removeAll src (sources s)\<rparr>)
          else Inl Dangling_source)"

section \<open>Formatting a descriptor: \<^verbatim>\<open>snprintf(buf, sizeof buf, "%d", fd)\<close>\<close>

definition digit_char :: "nat \<Rightarrow> char" where
  "digit_char n = ''0123456789'' ! (n mod 10)"

fun nat_str :: "nat \<Rightarrow> string" where
  "nat_str n = (if n < 10 then [digit_char n] else nat_str (n div 10) @ [digit_char n])"

definition int_str :: "int \<Rightarrow> string" where
  "int_str i = (if i < 0 then CHR ''-'' # nat_str (nat (- i)) else nat_str (nat i))"

section \<open>The argument vector (lines 130 to 157)\<close>

definition ARGS_COUNT :: nat where
  "ARGS_COUNT = 13"

definition argv_init :: "string \<Rightarrow> string \<Rightarrow> string \<Rightarrow> string \<Rightarrow> string option list" where
  "argv_init xserver display unix_fd_str wm_fd_str =
     [Some xserver, Some display, Some ''-rootless'', Some ''-core'',
      Some ''-listen'', Some unix_fd_str, Some ''-wm'', Some wm_fd_str,
      Some ''-terminate'', None, None, None, None]"

text \<open>
  \<open>build_argv\<close> returns the array and \<open>argc\<close>. \<open>abstract_fd\<close> is the descriptor number
  the branch tests; \<open>abstract_fd_str\<close> is the buffer, which holds the number only when
  the descriptor is not 0.
\<close>

definition build_argv ::
  "string \<Rightarrow> string \<Rightarrow> string \<Rightarrow> string \<Rightarrow> int \<Rightarrow> string \<Rightarrow> bool \<Rightarrow> string option list \<times> nat"
where
  "build_argv xserver display unix_fd_str wm_fd_str abstract_fd abstract_fd_str disable_ac =
     (let argv0 = argv_init xserver display unix_fd_str wm_fd_str;
          argc0 = 9;
          (argv1, argc1) =
            (if abstract_fd \<noteq> 0
             then ((argv0[argc0 := Some ''-listen''])[Suc argc0 := Some abstract_fd_str],
                   Suc (Suc argc0))
             else ((argv0[argc0 := Some ''-nolisten''])[Suc argc0 := Some ''local''],
                   Suc (Suc argc0)))
      in if disable_ac then (argv1[argc1 := Some ''-ac''], Suc argc1) else (argv1, argc1))"

text \<open>The entries before the terminator, as \<^verbatim>\<open>execv\<close> reads them.\<close>

definition argv_words :: "string option list \<Rightarrow> string list" where
  "argv_words argv = map the (takeWhile (\<lambda>a. a \<noteq> None) argv)"

section \<open>\<^verbatim>\<open>spawn_xserver\<close>\<close>

text \<open>
  What the operating system, the host and the configuration answer during one call.
  \<open>XSERVER_PATH\<close> is the compiled-in default of the \<^verbatim>\<open>path\<close> key; its value is not in
  this file. \<open>abstract_fd_str_uninit\<close> is the content of the stack buffer
  \<^verbatim>\<open>abstract_fd_str\<close> before anything is written to it. \<open>execv_errno\<close> is \<open>None\<close> when
  \<^verbatim>\<open>execv\<close> replaces the image and the text of \<^verbatim>\<open>strerror(errno)\<close> when it returns.
\<close>

record spawn_env =
  socketpair_sv :: "(int \<times> int) option"
  socketpair_wm :: "(int \<times> int) option"
  fork_ret :: int
  wl_client_create_ret :: "nat option"
  dup_sv_ret :: int
  dup_abstract_ret :: int
  dup_unix_ret :: int
  dup_wm_ret :: int
  XSERVER_PATH :: string
  config_path :: "string option"
  config_disable_access_control :: "bool option"
  abstract_fd_str_uninit :: string
  execv_errno :: "string option"

text \<open>
  How a call ends: it returns to the caller, or (in the forked child) the image is
  replaced, the child exits with \<^verbatim>\<open>EXIT_FAILURE\<close>, or the assertion on \<open>argc\<close> aborts it.
\<close>

datatype outcome = Returns int | Image_replaced | Exited_failure | Assert_failed

definition nl :: string where
  "nl = [CHR 0x0A]"

definition fail :: "world \<Rightarrow> outcome \<times> world" where
  "fail s = (Exited_failure, emit Exit_failure s)"

text \<open>\<^verbatim>\<open>printf("%s", p)\<close> of a NULL pointer prints \<^verbatim>\<open>(null)\<close> in glibc.\<close>

definition c_str :: "string option \<Rightarrow> string" where
  "c_str a = (case a of None \<Rightarrow> ''(null)'' | Some x \<Rightarrow> x)"

text \<open>The loop \<^verbatim>\<open>for (int i=0; i<argc; i++) weston_log_continue("%s ", argv[i])\<close>, over the
  first \<open>argc\<close> entries.\<close>

primrec log_args :: "string option list \<Rightarrow> world \<Rightarrow> world" where
  "log_args [] s = s"
| "log_args (a # as) s = log_args as (emit (Weston_log_continue (c_str a @ '' '')) s)"

text \<open>The branch \<^verbatim>\<open>case 0\<close> of the switch on \<^verbatim>\<open>fork()\<close>: the child.\<close>

definition spawn_child ::
  "spawn_env \<Rightarrow> string \<Rightarrow> int \<Rightarrow> int \<Rightarrow> int \<Rightarrow> int \<Rightarrow> world \<Rightarrow> outcome \<times> world"
where
  "spawn_child env display abstract_fd unix_fd sv1 wm1 s0 =
     (let fd_s = dup_sv_ret env; s1 = dup sv1 fd_s s0 in
      if fd_s < 0 then fail s1 else
      let s2 = emit (Setenv ''WAYLAND_SOCKET'' (int_str fd_s)) s1;
          fd_a = dup_abstract_ret env;
          s3 = (if abstract_fd \<noteq> 0 then dup abstract_fd fd_a s2 else s2) in
      if abstract_fd \<noteq> 0 \<and> fd_a < 0 then fail s3 else
      let abstract_fd_str =
            (if abstract_fd \<noteq> 0 then int_str fd_a else abstract_fd_str_uninit env);
          fd_u = dup_unix_ret env; s4 = dup unix_fd fd_u s3 in
      if fd_u < 0 then fail s4 else
      let unix_fd_str = int_str fd_u;
          fd_w = dup_wm_ret env; s5 = dup wm1 fd_w s4 in
      if fd_w < 0 then fail s5 else
      let wm_fd_str = int_str fd_w;
          xserver = (case config_path env of None \<Rightarrow> XSERVER_PATH env | Some p \<Rightarrow> p);
          disable_ac = (case config_disable_access_control env of None \<Rightarrow> False | Some b \<Rightarrow> b);
          s6 = emit Signal_ignore_sigusr1 s5;
          (argv, argc) = build_argv xserver display unix_fd_str wm_fd_str
                           abstract_fd abstract_fd_str disable_ac in
      if \<not> argc \<le> ARGS_COUNT then (Assert_failed, s6) else
      let s7 = emit (Execv xserver argv) s6 in
      case execv_errno env of
        None \<Rightarrow> (Image_replaced, s7)
      | Some e \<Rightarrow>
          fail (weston_log (nl @ ''Failed to launch Xwayland: '' @ e @ nl)
                 (log_args (take argc argv)
                    (weston_log (c_str (argv ! 0) @ '' '') s7))))"

text \<open>
  The whole function. The result is how the call ends, the \<^verbatim>\<open>wet_xwayland\<close> it was given
  and the process state, each as the process that ran the branch sees it.
\<close>

definition spawn_xserver ::
  "spawn_env \<Rightarrow> wet_xwayland \<Rightarrow> string \<Rightarrow> int \<Rightarrow> int \<Rightarrow> world \<Rightarrow> outcome \<times> wet_xwayland \<times> world"
where
  "spawn_xserver env wxw display abstract_fd unix_fd s0 =
     (case socketpair_sv env of
        None \<Rightarrow>
          (Returns 1, wxw,
           weston_log (''wl connection socketpair failed'' @ nl) (socketpair None s0))
      | Some (sv0, sv1) \<Rightarrow>
          let s1 = socketpair (Some (sv0, sv1)) s0 in
          (case socketpair_wm env of
             None \<Rightarrow>
               (Returns 1, wxw,
                weston_log (''X wm connection socketpair failed'' @ nl) (socketpair None s1))
           | Some (wm0, wm1) \<Rightarrow>
               let s2 = socketpair (Some (wm0, wm1)) s1;
                   pid = fork_ret env;
                   s3 = emit (Fork pid) s2 in
               if pid = 0 then
                 (let (out, s') = spawn_child env display abstract_fd unix_fd sv1 wm1 s3
                  in (out, wxw, s'))
               else if pid = - 1 then
                 (Returns pid, wxw,
                  weston_log (''Failed to fork to spawn xserver process'' @ nl) s3)
               else
                 (let s4 = close_fd sv1 s3;
                      c = wl_client_create_ret env;
                      s5 = emit (Wl_client_create sv0 c) s4;
                      w1 = wxw\<lparr>client := c\<rparr>;
                      s6 = close_fd wm1 s5;
                      w2 = w1\<lparr>wm_fd := wm0\<rparr>;
                      w3 = w2\<lparr>process_pid := pid\<rparr>;
                      s7 = emit (Weston_watch_process pid) s6
                  in (Returns pid, w3, s7))))"

section \<open>\<^verbatim>\<open>handle_sigusr1\<close> and \<^verbatim>\<open>xserver_cleanup\<close>\<close>

definition handle_sigusr1 :: "wet_xwayland \<Rightarrow> world \<Rightarrow> fault + (int \<times> world)" where
  "handle_sigusr1 wxw s =
     (let s1 = emit (Xserver_loaded (xwayland wxw) (client wxw) (wm_fd wxw)) s in
      case wl_event_source_remove (sigusr1_source wxw) s1 of
        Inl f \<Rightarrow> Inl f
      | Inr s2 \<Rightarrow> Inr (1, s2))"

definition xserver_cleanup :: "wet_xwayland \<Rightarrow> int \<Rightarrow> world \<Rightarrow> wet_xwayland \<times> world" where
  "xserver_cleanup wxw status s =
     (let s1 = emit (Xserver_exited (xwayland wxw) status) s;
          (src, s2) = wl_event_loop_add_signal Handle_sigusr1 s1;
          w1 = wxw\<lparr>sigusr1_source := Some src\<rparr>
      in (w1\<lparr>client := None\<rparr>, s2))"

section \<open>\<^verbatim>\<open>wet_load_xwayland\<close>\<close>

record load_env =
  load_xwayland_ret :: int
  get_api_ret :: "nat option"
  api_get_ret :: "nat option"
  zalloc_ret :: "nat option"
  api_listen_ret :: int

definition zalloc :: "nat option \<Rightarrow> world \<Rightarrow> world" where
  "zalloc r s =
     (case r of
        None \<Rightarrow> emit (Zalloc None) s
      | Some a \<Rightarrow> (emit (Zalloc (Some a)) s)\<lparr>allocated := allocated s @ [a]\<rparr>)"

text \<open>
  The result is the returned int, the \<^verbatim>\<open>wet_xwayland\<close> block on the heap when one was
  allocated (the C function hands it to \<^verbatim>\<open>api->listen\<close> and keeps no other reference),
  and the process state.
\<close>

definition wet_load_xwayland ::
  "load_env \<Rightarrow> nat \<Rightarrow> world \<Rightarrow> int \<times> wet_xwayland option \<times> world"
where
  "wet_load_xwayland env ec s0 =
     (let s1 = emit (Load_xwayland_module (load_xwayland_ret env)) s0 in
      if load_xwayland_ret env < 0 then (- 1, None, s1) else
      let s2 = emit (Get_api (get_api_ret env)) s1 in
      case get_api_ret env of
        None \<Rightarrow>
          (- 1, None, weston_log (''Failed to get the xwayland module API.'' @ nl) s2)
      | Some a \<Rightarrow>
          let s3 = emit (Api_get (api_get_ret env)) s2 in
          (case api_get_ret env of
             None \<Rightarrow>
               (- 1, None, weston_log (''Failed to get the xwayland object.'' @ nl) s3)
           | Some xw \<Rightarrow>
               let s4 = zalloc (zalloc_ret env) s3 in
               (case zalloc_ret env of
                  None \<Rightarrow> (- 1, None, s4)
                | Some addr \<Rightarrow>
                    let wxw = zalloc_wxw\<lparr>compositor := ec, api := a, xwayland := xw,
                                process_cleanup := Some Xserver_cleanup\<rparr>;
                        s5 = emit (Api_listen xw Spawn_xserver (api_listen_ret env)) s4 in
                    if api_listen_ret env < 0 then (- 1, Some wxw, s5) else
                    let (src, s6) = wl_event_loop_add_signal Handle_sigusr1 s5
                    in (0, Some (wxw\<lparr>sigusr1_source := Some src\<rparr>), s6))))"

section \<open>The supervisor under the host's event loop\<close>

text \<open>
  The host loads the module once and then calls back: \<open>Spawn\<close> when the xwayland module
  asks for a server, \<open>Sigusr1\<close> when the signal arrives, \<open>Exited\<close> when the watched
  process has ended. A signal reaches \<^verbatim>\<open>handle_sigusr1\<close> only while a source is armed.
  A run follows the parent: the forked child leaves it.
\<close>

datatype action = Spawn spawn_env string int int | Sigusr1 | Exited int

datatype halt = Load_failed int | Faulted fault | In_child outcome

definition step :: "action \<Rightarrow> wet_xwayland \<times> world \<Rightarrow> halt + wet_xwayland \<times> world" where
  "step a ws =
     (case ws of (w, s) \<Rightarrow>
        (case a of
           Spawn env display abstract_fd unix_fd \<Rightarrow>
             (case spawn_xserver env w display abstract_fd unix_fd s of
                (Returns r, w', s') \<Rightarrow> Inr (w', s')
              | (out, w', s') \<Rightarrow> Inl (In_child out))
         | Sigusr1 \<Rightarrow>
             if sources s = [] then Inr (w, s)
             else (case handle_sigusr1 w s of
                     Inl f \<Rightarrow> Inl (Faulted f)
                   | Inr (r, s') \<Rightarrow> Inr (w, s'))
         | Exited status \<Rightarrow> Inr (xserver_cleanup w status s)))"

primrec run :: "action list \<Rightarrow> wet_xwayland \<times> world \<Rightarrow> halt + wet_xwayland \<times> world" where
  "run [] ws = Inr ws"
| "run (a # as) ws = (case step a ws of Inl h \<Rightarrow> Inl h | Inr ws' \<Rightarrow> run as ws')"

definition world0 :: world where
  "world0 = \<lparr>trace = [], open_fds = [0, 1, 2], sources = [], next_source = 0, allocated = []\<rparr>"

definition supervise ::
  "load_env \<Rightarrow> nat \<Rightarrow> action list \<Rightarrow> halt + wet_xwayland \<times> world"
where
  "supervise env ec acts =
     (case wet_load_xwayland env ec world0 of
        (r, Some w, s) \<Rightarrow> if r = 0 then run acts (w, s) else Inl (Load_failed r)
      | (r, None, s) \<Rightarrow> Inl (Load_failed r))"

text \<open>The number of SIGUSR1 sources armed at the end of a run.\<close>

definition armed :: "halt + wet_xwayland \<times> world \<Rightarrow> nat option" where
  "armed r = (case r of Inl h \<Rightarrow> None | Inr (w, s) \<Rightarrow> Some (length (sources s)))"

subsection \<open>A concrete host\<close>

definition load_ok :: load_env where
  "load_ok = \<lparr>load_xwayland_ret = 0, get_api_ret = Some 1, api_get_ret = Some 2,
     zalloc_ret = Some 3, api_listen_ret = 0\<rparr>"

definition spawn_ok :: spawn_env where
  "spawn_ok = \<lparr>socketpair_sv = Some (10, 11), socketpair_wm = Some (12, 13),
     fork_ret = 4242, wl_client_create_ret = Some 77,
     dup_sv_ret = 14, dup_abstract_ret = 15, dup_unix_ret = 16, dup_wm_ret = 17,
     XSERVER_PATH = ''/usr/bin/Xwayland'', config_path = None,
     config_disable_access_control = None, abstract_fd_str_uninit = ''junk'',
     execv_errno = None\<rparr>"

text \<open>A second spawn after the first helper has gone: descriptors 11 and 13 are free
  again and are handed out first.\<close>

definition spawn_again :: spawn_env where
  "spawn_again = spawn_ok\<lparr>socketpair_sv := Some (11, 13), socketpair_wm := Some (14, 15),
     fork_ret := 4243, wl_client_create_ret := Some 78\<rparr>"

subsection \<open>Observations on a call\<close>

text \<open>The calls made between two states of the same process.\<close>

definition new_events :: "world \<Rightarrow> world \<Rightarrow> event list" where
  "new_events s s' = drop (length (trace s)) (trace s')"

fun is_fork :: "event \<Rightarrow> bool" where
  "is_fork (Fork p) = True"
| "is_fork e = False"

fun is_socketpair :: "event \<Rightarrow> bool" where
  "is_socketpair (Socketpair r) = True"
| "is_socketpair e = False"

text \<open>The \<^verbatim>\<open>wet_xwayland\<close> at the end of a run.\<close>

definition final_wxw :: "halt + wet_xwayland \<times> world \<Rightarrow> wet_xwayland option" where
  "final_wxw r = (case r of Inl h \<Rightarrow> None | Inr (w, s) \<Rightarrow> Some w)"

text \<open>The SIGUSR1 sources armed at the end of a run.\<close>

definition final_sources :: "halt + wet_xwayland \<times> world \<Rightarrow> nat list option" where
  "final_sources r = (case r of Inl h \<Rightarrow> None | Inr (w, s) \<Rightarrow> Some (sources s))"

section \<open>Properties\<close>

lemmas os_defs = emit_def weston_log_def socketpair_def close_fd_def dup_def
  wl_event_loop_add_signal_def wl_event_source_remove_def zalloc_def

lemmas run_defs = supervise_def wet_load_xwayland_def load_ok_def spawn_ok_def spawn_again_def
  world0_def zalloc_wxw_def step_def spawn_xserver_def xserver_cleanup_def handle_sigusr1_def
  os_defs Let_def

lemma build_argv_eq:
  "build_argv xserver display unix_fd_str wm_fd_str abstract_fd abstract_fd_str disable_ac =
     (map Some
        ([xserver, display, ''-rootless'', ''-core'', ''-listen'', unix_fd_str,
          ''-wm'', wm_fd_str, ''-terminate'']
         @ (if abstract_fd \<noteq> 0 then [''-listen'', abstract_fd_str] else [''-nolisten'', ''local''])
         @ (if disable_ac then [''-ac''] else []))
      @ replicate (if disable_ac then 1 else 2) None,
      if disable_ac then 12 else 11)"
  by (simp add: build_argv_def argv_init_def eval_nat_numeral)

lemma int_str_examples:
  "int_str 14 = ''14''" "int_str 16 = ''16''" "int_str 17 = ''17''"
  by (simp_all add: int_str_def digit_char_def)

subsection \<open>The argument vector\<close>

text \<open>
  C1. For all inputs the vector is a function of them: its first \<open>argc\<close> entries are the
  nine fixed ones, then \<^verbatim>\<open>-listen <abstract_fd_str>\<close> when the abstract descriptor is
  given (not 0) and \<^verbatim>\<open>-nolisten local\<close> otherwise, then \<^verbatim>\<open>-ac\<close> exactly when access
  control is disabled; entry \<open>argc\<close> is the NULL terminator, the array has 13 slots and
  the terminator is within them.
\<close>

theorem build_argv_vector:
  "(let (argv, argc) = build_argv xserver display unix_fd_str wm_fd_str
                         abstract_fd abstract_fd_str disable_ac
    in take argc argv =
         map Some
           ([xserver, display, ''-rootless'', ''-core'', ''-listen'', unix_fd_str,
             ''-wm'', wm_fd_str, ''-terminate'']
            @ (if abstract_fd \<noteq> 0 then [''-listen'', abstract_fd_str]
               else [''-nolisten'', ''local''])
            @ (if disable_ac then [''-ac''] else []))
       \<and> argv ! argc = None
       \<and> length argv = ARGS_COUNT
       \<and> Suc argc \<le> ARGS_COUNT)"
  by (simp add: build_argv_eq ARGS_COUNT_def eval_nat_numeral)

text \<open>The vector for display \<^verbatim>\<open>:1\<close> with the abstract descriptor duplicated to 15.\<close>

theorem build_argv_vector_witness:
  "take 11 (fst (build_argv ''/usr/bin/Xwayland'' '':1'' ''16'' ''17'' 5 ''15'' False)) =
     map Some [''/usr/bin/Xwayland'', '':1'', ''-rootless'', ''-core'', ''-listen'', ''16'',
        ''-wm'', ''17'', ''-terminate'', ''-listen'', ''15'']
   \<and> snd (build_argv ''/usr/bin/Xwayland'' '':1'' ''16'' ''17'' 5 ''15'' False) = 11"
  using build_argv_vector [of "''/usr/bin/Xwayland''" "'':1''" "''16''" "''17''" 5 "''15''" False]
  by (simp add: build_argv_eq)

text \<open>
  C10. Called with \<open>abstract_fd = 0\<close>, the child (all its \<^verbatim>\<open>dup\<close> calls succeeding)
  duplicates the display channel end, the unix descriptor and the window-manager
  channel end and nothing else, and executes the server with \<^verbatim>\<open>-nolisten local\<close>:
  descriptor 0 is never handed over as \<^verbatim>\<open>-listen 0\<close>.
\<close>

theorem spawn_abstract_fd_zero:
  assumes "socketpair_sv env = Some (sv0, sv1)" and "socketpair_wm env = Some (wm0, wm1)"
    and "fork_ret env = 0"
    and "0 \<le> dup_sv_ret env" and "0 \<le> dup_unix_ret env" and "0 \<le> dup_wm_ret env"
  shows "(let (out, wxw', s') = spawn_xserver env wxw display 0 unix_fd s;
              xserver = (case config_path env of None \<Rightarrow> XSERVER_PATH env | Some p \<Rightarrow> p);
              disable_ac = (case config_disable_access_control env of
                              None \<Rightarrow> False | Some b \<Rightarrow> b)
          in take 9 (new_events s s') =
               [Socketpair (Some (sv0, sv1)), Socketpair (Some (wm0, wm1)), Fork 0,
                Dup sv1 (dup_sv_ret env),
                Setenv ''WAYLAND_SOCKET'' (int_str (dup_sv_ret env)),
                Dup unix_fd (dup_unix_ret env),
                Dup wm1 (dup_wm_ret env),
                Signal_ignore_sigusr1,
                Execv xserver
                  (map Some
                     ([xserver, display, ''-rootless'', ''-core'', ''-listen'',
                       int_str (dup_unix_ret env), ''-wm'', int_str (dup_wm_ret env),
                       ''-terminate'', ''-nolisten'', ''local'']
                      @ (if disable_ac then [''-ac''] else []))
                   @ replicate (if disable_ac then 1 else 2) None)]
           \<and> out = (if execv_errno env = None then Image_replaced else Exited_failure))"
  using assms
  by (simp add: spawn_xserver_def spawn_child_def build_argv_eq ARGS_COUNT_def new_events_def
      fail_def os_defs Let_def split: option.splits)

theorem spawn_abstract_fd_zero_witness:
  "take 9 (new_events world0
      (snd (snd (spawn_xserver (spawn_ok\<lparr>fork_ret := 0\<rparr>) zalloc_wxw '':0'' 0 7 world0)))) =
     [Socketpair (Some (10, 11)), Socketpair (Some (12, 13)), Fork 0, Dup 11 14,
      Setenv ''WAYLAND_SOCKET'' ''14'', Dup 7 16, Dup 13 17, Signal_ignore_sigusr1,
      Execv ''/usr/bin/Xwayland''
        [Some ''/usr/bin/Xwayland'', Some '':0'', Some ''-rootless'', Some ''-core'',
         Some ''-listen'', Some ''16'', Some ''-wm'', Some ''17'', Some ''-terminate'',
         Some ''-nolisten'', Some ''local'', None, None]]"
  using spawn_abstract_fd_zero [of "spawn_ok\<lparr>fork_ret := 0\<rparr>" 10 11 12 13 zalloc_wxw "'':0''" 7 world0]
  by (simp add: spawn_ok_def split_beta Let_def int_str_examples numeral_2_eq_2)

subsection \<open>Spawning\<close>

text \<open>
  When either \<^verbatim>\<open>socketpair\<close> call fails, the call returns 1, the
  \<^verbatim>\<open>wet_xwayland\<close> is untouched, no \<^verbatim>\<open>fork\<close> is made, and the last call is the log
  message naming the pair that failed.
\<close>

lemma spawn_channel_failure:
  assumes "socketpair_sv env = None \<or> socketpair_wm env = None"
  shows "(let (out, wxw', s') = spawn_xserver env wxw display abstract_fd unix_fd s
          in out = Returns 1 \<and> wxw' = wxw
           \<and> filter is_fork (new_events s s') = []
           \<and> new_events s s' =
               (case socketpair_sv env of
                  None \<Rightarrow> [Socketpair None,
                           Weston_log (''wl connection socketpair failed'' @ nl)]
                | Some p \<Rightarrow> [Socketpair (Some p), Socketpair None,
                             Weston_log (''X wm connection socketpair failed'' @ nl)]))"
  using assms
  by (auto simp: spawn_xserver_def new_events_def os_defs split: option.splits)

lemma spawn_channel_failure_example:
  "fst (spawn_xserver (spawn_ok\<lparr>socketpair_wm := None\<rparr>) zalloc_wxw '':0'' 0 7 world0) = Returns 1
   \<and> new_events world0
       (snd (snd (spawn_xserver (spawn_ok\<lparr>socketpair_wm := None\<rparr>) zalloc_wxw '':0'' 0 7 world0))) =
     [Socketpair (Some (10, 11)), Socketpair None,
      Weston_log (''X wm connection socketpair failed'' @ nl)]"
  using spawn_channel_failure [of "spawn_ok\<lparr>socketpair_wm := None\<rparr>" zalloc_wxw "'':0''" 0 7 world0]
  by (simp add: spawn_ok_def split_beta)


text \<open>
  C9. When both pairs are created and \<^verbatim>\<open>fork\<close> returns a process id, the call makes
  two \<^verbatim>\<open>socketpair\<close> calls and one \<^verbatim>\<open>fork\<close>; the parent closes \<open>sv[1]\<close> and \<open>wm[1]\<close>,
  sets \<open>client\<close> to what \<^verbatim>\<open>wl_client_create\<close> makes of \<open>sv[0]\<close>, keeps \<open>wm[0]\<close> in
  \<open>wm_fd\<close>, stores the process id, hands the process to \<^verbatim>\<open>weston_watch_process\<close>, and
  returns the process id.
\<close>

theorem spawn_success:
  assumes "socketpair_sv env = Some (sv0, sv1)" and "socketpair_wm env = Some (wm0, wm1)"
    and "0 < fork_ret env"
  shows "(let (out, wxw', s') = spawn_xserver env wxw display abstract_fd unix_fd s
          in out = Returns (fork_ret env)
           \<and> wxw' = wxw\<lparr>client := wl_client_create_ret env, wm_fd := wm0,
                        process_pid := fork_ret env\<rparr>
           \<and> new_events s s' =
               [Socketpair (Some (sv0, sv1)), Socketpair (Some (wm0, wm1)),
                Fork (fork_ret env), Close sv1,
                Wl_client_create sv0 (wl_client_create_ret env), Close wm1,
                Weston_watch_process (fork_ret env)]
           \<and> length (filter is_socketpair (new_events s s')) = 2
           \<and> length (filter is_fork (new_events s s')) = 1
           \<and> open_fds s' = removeAll wm1 (removeAll sv1 (open_fds s @ [sv0, sv1, wm0, wm1]))
           \<and> sv1 \<notin> set (open_fds s') \<and> wm1 \<notin> set (open_fds s'))"
  using assms
  by (simp add: spawn_xserver_def new_events_def os_defs Let_def)

theorem spawn_success_witness:
  "fst (spawn_xserver spawn_ok zalloc_wxw '':0'' 0 7 world0) = Returns 4242
   \<and> fst (snd (spawn_xserver spawn_ok zalloc_wxw '':0'' 0 7 world0)) =
       zalloc_wxw\<lparr>client := Some 77, wm_fd := 12, process_pid := 4242\<rparr>
   \<and> new_events world0 (snd (snd (spawn_xserver spawn_ok zalloc_wxw '':0'' 0 7 world0))) =
       [Socketpair (Some (10, 11)), Socketpair (Some (12, 13)), Fork 4242,
        Close 11, Wl_client_create 10 (Some 77), Close 13, Weston_watch_process 4242]
   \<and> open_fds (snd (snd (spawn_xserver spawn_ok zalloc_wxw '':0'' 0 7 world0))) =
       [0, 1, 2, 10, 12]"
  using spawn_success [of spawn_ok 10 11 12 13 zalloc_wxw "'':0''" 0 7 world0]
  by (simp add: spawn_ok_def split_beta world0_def)

text \<open>
  C3. When \<^verbatim>\<open>fork\<close> returns -1 the call logs and returns -1, which differs from the 1 of
  a failed \<^verbatim>\<open>socketpair\<close>; it makes no \<^verbatim>\<open>close\<close> call, and the four descriptors 10, 11,
  12 and 13 of the two pairs are still open when it returns.
\<close>

theorem fork_failure_leaves_channels_open:
  "spawn_xserver (spawn_ok\<lparr>fork_ret := - 1\<rparr>) zalloc_wxw '':0'' 0 7 world0 =
     (Returns (- 1), zalloc_wxw,
      world0\<lparr>trace := [Socketpair (Some (10, 11)), Socketpair (Some (12, 13)), Fork (- 1),
                 Weston_log (''Failed to fork to spawn xserver process'' @ nl)],
             open_fds := [0, 1, 2, 10, 11, 12, 13]\<rparr>)"
  by (simp add: spawn_xserver_def spawn_ok_def world0_def os_defs Let_def)

subsection \<open>Readiness and exit\<close>

text \<open>
  When the signal is delivered while the source recorded in \<open>sigusr1_source\<close> is
  armed, the handler calls \<^verbatim>\<open>xserver_loaded\<close> with the current \<open>client\<close> and \<open>wm_fd\<close>,
  then removes that source, and returns 1; it adds no source.
\<close>

lemma handle_sigusr1_effects:
  assumes "sigusr1_source wxw = Some src" and "src \<in> set (sources s)"
  shows "handle_sigusr1 wxw s =
     Inr (1, s\<lparr>trace := trace s @ [Xserver_loaded (xwayland wxw) (client wxw) (wm_fd wxw),
                                   Source_remove src],
               sources := removeAll src (sources s)\<rparr>)"
  using assms by (simp add: handle_sigusr1_def os_defs Let_def)

lemma handle_sigusr1_effects_example:
  "handle_sigusr1 (zalloc_wxw\<lparr>xwayland := 2, sigusr1_source := Some 0, client := Some 77,
       wm_fd := 12\<rparr>) (world0\<lparr>sources := [0], next_source := 1\<rparr>) =
     Inr (1, world0\<lparr>trace := [Xserver_loaded 2 (Some 77) 12, Source_remove 0],
               sources := [], next_source := 1\<rparr>)"
  using handle_sigusr1_effects [of "zalloc_wxw\<lparr>xwayland := 2, sigusr1_source := Some 0,
    client := Some 77, wm_fd := 12\<rparr>" 0 "world0\<lparr>sources := [0], next_source := 1\<rparr>"]
  by (simp add: zalloc_wxw_def world0_def)

text \<open>
  C8. The handler removes the source recorded in \<open>sigusr1_source\<close>, whichever source
  fired. After a helper that exited before SIGUSR1 and a second spawn, sources 0 and 1
  are armed and source 1 is the recorded one: the delivery of the second helper's
  signal removes source 1 and leaves source 0 armed with \<open>sigusr1_source\<close> still naming
  source 1, and the next run of the handler, for source 0, removes a source that is
  already gone instead of its own.
\<close>

theorem sigusr1_removes_recorded_source:
  "final_sources (supervise load_ok 1
       [Spawn spawn_ok '':0'' 0 7, Exited 1, Spawn spawn_again '':0'' 0 7, Sigusr1]) = Some [0]
   \<and> map_option sigusr1_source (final_wxw (supervise load_ok 1
       [Spawn spawn_ok '':0'' 0 7, Exited 1, Spawn spawn_again '':0'' 0 7, Sigusr1])) =
     Some (Some 1)
   \<and> supervise load_ok 1
       [Spawn spawn_ok '':0'' 0 7, Exited 1, Spawn spawn_again '':0'' 0 7, Sigusr1, Sigusr1] =
     Inl (Faulted Dangling_source)"
  by (simp add: final_sources_def final_wxw_def run_defs)

text \<open>
  C7. On every exit notification the handler calls \<^verbatim>\<open>xserver_exited\<close> with the status,
  then arms one new SIGUSR1 source and records it in \<open>sigusr1_source\<close>, and sets
  \<open>client\<close> to NULL; it makes no other call.
\<close>

theorem xserver_cleanup_effects:
  "xserver_cleanup wxw status s =
     (wxw\<lparr>sigusr1_source := Some (next_source s), client := None\<rparr>,
      s\<lparr>trace := trace s @ [Xserver_exited (xwayland wxw) status,
                            Add_signal Handle_sigusr1 (next_source s)],
        sources := sources s @ [next_source s],
        next_source := Suc (next_source s)\<rparr>)"
  by (simp add: xserver_cleanup_def os_defs Let_def)

text \<open>
  C5, as the code has it. On every exit notification the handler sets \<open>client\<close> to
  NULL; \<open>process_pid\<close> and \<open>wm_fd\<close> are left as they were.
\<close>

theorem xserver_cleanup_clears_client_only:
  "(let (wxw', s') = xserver_cleanup wxw status s
    in client wxw' = None \<and> process_pid wxw' = process_pid wxw \<and> wm_fd wxw' = wm_fd wxw)"
  by (simp add: xserver_cleanup_def os_defs Let_def)

text \<open>
  C5 as stated fails: after a load, a spawn of process 4242 with window-manager
  channel end 12, and the exit notification, \<open>process_pid\<close> is still 4242 and \<open>wm_fd\<close>
  is still 12.
\<close>

theorem exit_keeps_pid_and_wm_fd:
  "map_option process_pid
     (final_wxw (supervise load_ok 1 [Spawn spawn_ok '':0'' 0 7, Exited 1])) = Some 4242
   \<and> map_option wm_fd
       (final_wxw (supervise load_ok 1 [Spawn spawn_ok '':0'' 0 7, Exited 1])) = Some 12"
  by (simp add: final_wxw_def supervise_def wet_load_xwayland_def load_ok_def spawn_ok_def
      world0_def zalloc_wxw_def step_def spawn_xserver_def xserver_cleanup_def os_defs Let_def)

text \<open>
  C2. After a load, a spawn and an exit notification with no SIGUSR1 in between, two
  SIGUSR1 sources are armed: the one of the load, which nothing removed, and the one
  the exit handler added.
\<close>

theorem two_sources_after_early_exit:
  "armed (supervise load_ok 1 [Spawn spawn_ok '':0'' 0 7, Exited 1]) = Some 2"
  by (simp add: armed_def supervise_def wet_load_xwayland_def load_ok_def spawn_ok_def
      world0_def zalloc_wxw_def step_def spawn_xserver_def xserver_cleanup_def os_defs Let_def)

subsection \<open>Loading\<close>

text \<open>
  C4. When \<^verbatim>\<open>api->listen\<close> fails after the allocation, the load returns -1 without
  arming a source, and the block allocated for the \<^verbatim>\<open>wet_xwayland\<close> (block 3) is still
  allocated.
\<close>

theorem listen_failure_keeps_allocation:
  "wet_load_xwayland (load_ok\<lparr>api_listen_ret := - 1\<rparr>) 1 world0 =
     (- 1,
      Some (zalloc_wxw\<lparr>compositor := 1, api := 1, xwayland := 2,
              process_cleanup := Some Xserver_cleanup\<rparr>),
      world0\<lparr>trace := [Load_xwayland_module 0, Get_api (Some 1), Api_get (Some 2),
                 Zalloc (Some 3), Api_listen 2 Spawn_xserver (- 1)],
             allocated := [3]\<rparr>)"
  by (simp add: wet_load_xwayland_def load_ok_def world0_def os_defs Let_def)

end
